theory Spec2Isabelle
  imports Main "HOL-Library.Word"
begin

section \<open>Synchronized checkpoints (src/checkpointsync.cpp)\<close>

text \<open>
  A shallow embedding of the synchronized-checkpoint logic. The file-level globals
  (\<open>hashSyncCheckpoint\<close>, \<open>hashPendingCheckpoint\<close>, \<open>checkpointMessage\<close>,
  \<open>checkpointMessagePending\<close>, \<open>CSyncCheckpoint::strMasterPrivKey\<close>) together with the
  objects the functions write to (the block-tree database \<open>pblocktree\<close>, the peers behind
  \<open>g_connman\<close>) form the record \<open>node\<close>, passed in and returned. What the functions only
  read from the surrounding node (block index, active chain, chain parameters, arguments,
  cryptography, serialization, whether a database write succeeds) is the record \<open>env\<close>.
\<close>

subsection \<open>Data\<close>

type_synonym uint256 = "256 word"

type_synonym bytes = "8 word list"

text \<open>
  \<open>CBlockIndex\<close>: the three members the file reads. \<open>pprev\<close> is a pointer that is either
  null or the parent's entry, so an entry is given with its whole chain of parents;
  \<open>nHeight\<close> is a C \<open>int\<close> that the file only compares (and once adds to an \<open>int64_t\<close>).
\<close>

datatype CBlockIndex =
  CBlockIndex (GetBlockHash: uint256) (nHeight: int) (pprev: "CBlockIndex option")

record CSyncCheckpoint =
  nVersion :: int
  hashCheckpoint :: uint256
  vchMsg :: bytes
  vchSig :: bytes

record CNode =
  hashCheckpointKnown :: uint256
  supportACPMessages :: bool
  vSendMsg :: "CSyncCheckpoint list"

record node =
  hashSyncCheckpoint :: uint256
  hashPendingCheckpoint :: uint256
  checkpointMessage :: CSyncCheckpoint
  checkpointMessagePending :: CSyncCheckpoint
  strMasterPrivKey :: string
  txdb_SyncCheckpoint :: "uint256 option"
  txdb_CheckpointPubKey :: "string option"
  nFlushes :: nat
  g_connman :: "CNode list option"

text \<open>
  The surroundings, as parameters. \<open>ChainActive_Contains\<close> and \<open>ChainActive_Tip\<close> stand for
  \<open>::ChainActive().Contains\<close> and \<open>::ChainActive().Tip()\<close> (a null tip is \<open>None\<close>);
  \<open>Verify pk msg sig\<close> for \<open>CPubKey(ParseHex(pk)).Verify(Hash(msg), sig)\<close>;
  \<open>Unserialize\<close> and \<open>Serialize\<close> for the stream operators of \<open>CUnsignedSyncCheckpoint\<close>
  (reading a payload that is too short throws: \<open>None\<close>); \<open>DecodeSecret_IsValid\<close> for
  \<open>DecodeSecret(k).IsValid()\<close>; \<open>Sign k msg\<close> for \<open>key.Sign(Hash(msg), vchSig)\<close>;
  the two \<open>_ok\<close> flags say whether \<open>pblocktree->WriteSyncCheckpoint\<close> and
  \<open>pblocktree->WriteCheckpointPubKey\<close> succeed; \<open>checkpointdepth\<close> is
  \<open>gArgs.GetArg("-checkpointdepth", DEFAULT_AUTOCHECKPOINT)\<close>, an \<open>int64_t\<close>.
\<close>

record env =
  BlockIndex :: "uint256 \<rightharpoonup> CBlockIndex"
  ChainActive_Contains :: "CBlockIndex \<Rightarrow> bool"
  ChainActive_Tip :: "CBlockIndex option"
  hashGenesisBlock :: uint256
  checkpointPubKey :: string
  checkpointdepth :: int
  Verify :: "string \<Rightarrow> bytes \<Rightarrow> bytes \<Rightarrow> bool"
  Unserialize :: "bytes \<Rightarrow> (int \<times> uint256) option"
  Serialize :: "int \<Rightarrow> uint256 \<Rightarrow> bytes"
  DecodeSecret_IsValid :: "string \<Rightarrow> bool"
  Sign :: "string \<Rightarrow> bytes \<Rightarrow> bytes option"
  txdb_WriteSyncCheckpoint_ok :: bool
  txdb_WriteCheckpointPubKey_ok :: bool

subsection \<open>ValidateSyncCheckpoint\<close>

text \<open>
  The loop \<open>while (pindex->nHeight > h) if (!(pindex = pindex->pprev)) return error(...)\<close>,
  which occurs three times in the file: \<open>None\<close> when a null \<open>pprev\<close> ends it, otherwise
  the entry at which it stops.
\<close>

fun trace_back :: "CBlockIndex \<Rightarrow> int \<Rightarrow> CBlockIndex option" where
  "trace_back (CBlockIndex hb n pp) h =
     (if n > h
      then (case pp of None \<Rightarrow> None | Some p \<Rightarrow> trace_back p h)
      else Some (CBlockIndex hb n pp))"

text \<open>
  The \<open>return error(...)\<close> statements of \<open>ValidateSyncCheckpoint\<close>, in source order. Each
  logs its message and yields \<open>false\<close>; \<open>Inr b\<close> is a plain \<open>return b\<close>.
\<close>

datatype validate_error =
  BlockIndexMissingCurrent
  | BlockIndexMissingReceived
  | Pprev1Null
  | Conflicting
  | Pprev2Null
  | NotDescendant

definition ValidateSyncCheckpoint :: "env \<Rightarrow> node \<Rightarrow> uint256 \<Rightarrow> validate_error + bool" where
  "ValidateSyncCheckpoint e s hashCheckpoint' =
     (case BlockIndex e (hashSyncCheckpoint s) of
        None \<Rightarrow> Inl BlockIndexMissingCurrent
      | Some pindexSyncCheckpoint \<Rightarrow>
          (case BlockIndex e hashCheckpoint' of
             None \<Rightarrow> Inl BlockIndexMissingReceived
           | Some pindexCheckpointRecv \<Rightarrow>
               if nHeight pindexCheckpointRecv \<le> nHeight pindexSyncCheckpoint
               then (case trace_back pindexSyncCheckpoint (nHeight pindexCheckpointRecv) of
                       None \<Rightarrow> Inl Pprev1Null
                     | Some pindex \<Rightarrow>
                         if GetBlockHash pindex \<noteq> hashCheckpoint' then Inl Conflicting
                         else Inr False)
               else (case trace_back pindexCheckpointRecv (nHeight pindexSyncCheckpoint) of
                       None \<Rightarrow> Inl Pprev2Null
                     | Some pindex \<Rightarrow>
                         if GetBlockHash pindex \<noteq> hashSyncCheckpoint s then Inl NotDescendant
                         else Inr True)))"

text \<open>The C++ \<open>bool\<close> a caller sees: every \<open>error(...)\<close> is \<open>false\<close>.\<close>

definition returned :: "'e + bool \<Rightarrow> bool" where
  "returned r = (case r of Inl _ \<Rightarrow> False | Inr b \<Rightarrow> b)"

subsection \<open>Ancestry, for stating what the walks find\<close>

text \<open>An entry followed by its parents up to the one whose \<open>pprev\<close> is null.\<close>

fun ancestry :: "CBlockIndex \<Rightarrow> CBlockIndex list" where
  "ancestry (CBlockIndex hb n pp) =
     CBlockIndex hb n pp # (case pp of None \<Rightarrow> [] | Some p \<Rightarrow> ancestry p)"

definition ancestor_at :: "CBlockIndex \<Rightarrow> int \<Rightarrow> CBlockIndex option" where
  "ancestor_at b h = find (\<lambda>a. nHeight a = h) (ancestry b)"

text \<open>Heights along parent links go down by exactly one (nothing is asked of the root).\<close>

fun linked :: "CBlockIndex \<Rightarrow> bool" where
  "linked (CBlockIndex hb n pp) =
     (case pp of None \<Rightarrow> True | Some p \<Rightarrow> nHeight p = n - 1 \<and> linked p)"

text \<open>The same, and the chain of parents ends in an entry of height 0 (the genesis block).\<close>

fun rooted :: "CBlockIndex \<Rightarrow> bool" where
  "rooted (CBlockIndex hb n pp) =
     (case pp of None \<Rightarrow> n = 0 | Some p \<Rightarrow> nHeight p = n - 1 \<and> rooted p)"

subsection \<open>WriteSyncCheckpoint\<close>

text \<open>
  A failed database write returns \<open>error(...)\<close> before anything else happens; otherwise
  the record is written, the chain state flushed and the global assigned.
\<close>

definition WriteSyncCheckpoint :: "env \<Rightarrow> node \<Rightarrow> uint256 \<Rightarrow> bool \<times> node" where
  "WriteSyncCheckpoint e s hashCheckpoint' =
     (if \<not> txdb_WriteSyncCheckpoint_ok e then (False, s)
      else (True, s\<lparr>txdb_SyncCheckpoint := Some hashCheckpoint',
                      nFlushes := nFlushes s + 1,
                      hashSyncCheckpoint := hashCheckpoint'\<rparr>))"

subsection \<open>Messages\<close>

definition SetNull :: CSyncCheckpoint where
  "SetNull = \<lparr>nVersion = 1, hashCheckpoint = 0, vchMsg = [], vchSig = []\<rparr>"

definition IsNull :: "CSyncCheckpoint \<Rightarrow> bool" where
  "IsNull m = (hashCheckpoint m = 0)"

text \<open>\<open>RelayTo\<close>; its first argument is whether \<open>g_connman\<close> is non-null.\<close>

definition RelayTo :: "bool \<Rightarrow> CSyncCheckpoint \<Rightarrow> CNode \<Rightarrow> CNode" where
  "RelayTo connman m pfrom =
     (if connman \<and> hashCheckpointKnown pfrom \<noteq> hashCheckpoint m \<and> supportACPMessages pfrom
      then pfrom\<lparr>hashCheckpointKnown := hashCheckpoint m, vSendMsg := vSendMsg pfrom @ [m]\<rparr>
      else pfrom)"

datatype signature_error = VerifySignatureFailed | UnserializeThrew

text \<open>
  \<open>CheckSignature\<close> verifies the signature over the payload and then overwrites the
  message's own \<open>nVersion\<close> and \<open>hashCheckpoint\<close> with what the payload holds.
\<close>

definition CheckSignature :: "env \<Rightarrow> CSyncCheckpoint \<Rightarrow> signature_error + CSyncCheckpoint" where
  "CheckSignature e m =
     (if \<not> Verify e (checkpointPubKey e) (vchMsg m) (vchSig m) then Inl VerifySignatureFailed
      else (case Unserialize e (vchMsg m) of
              None \<Rightarrow> Inl UnserializeThrew
            | Some (v, h) \<Rightarrow> Inr (m\<lparr>nVersion := v, hashCheckpoint := h\<rparr>)))"

subsection \<open>AcceptPendingSyncCheckpoint\<close>

text \<open>The return statements of \<open>AcceptPendingSyncCheckpoint\<close>; only the last is \<open>true\<close>.\<close>

datatype accept_outcome =
  NoPendingCheckpoint
  | PendingNotValid "validate_error + bool"
  | PendingNotInActiveChain
  | PendingWriteFailed
  | PendingAccepted

definition relay_accepted :: "node \<Rightarrow> node" where
  "relay_accepted s =
     (case g_connman s of
        None \<Rightarrow> s
      | Some nodes \<Rightarrow>
          if IsNull (checkpointMessage s) then s
          else s\<lparr>g_connman := Some (map (\<lambda>pnode. if supportACPMessages pnode
                                                  then RelayTo True (checkpointMessage s) pnode
                                                  else pnode) nodes)\<rparr>)"

definition AcceptPendingSyncCheckpoint :: "env \<Rightarrow> node \<Rightarrow> accept_outcome \<times> node" where
  "AcceptPendingSyncCheckpoint e s =
     (case (if hashPendingCheckpoint s \<noteq> 0 then BlockIndex e (hashPendingCheckpoint s) else None) of
        None \<Rightarrow> (NoPendingCheckpoint, s)
      | Some pindex \<Rightarrow>
          let r = ValidateSyncCheckpoint e s (hashPendingCheckpoint s) in
          if \<not> returned r
          then (PendingNotValid r,
                s\<lparr>hashPendingCheckpoint := 0, checkpointMessagePending := SetNull\<rparr>)
          else if \<not> ChainActive_Contains e pindex then (PendingNotInActiveChain, s)
          else (case WriteSyncCheckpoint e s (hashPendingCheckpoint s) of
                  (False, s1) \<Rightarrow> (PendingWriteFailed, s1)
                | (True, s1) \<Rightarrow>
                    (PendingAccepted,
                     relay_accepted
                       (s1\<lparr>hashPendingCheckpoint := 0,
                           checkpointMessage := checkpointMessagePending s1,
                           checkpointMessagePending := SetNull\<rparr>))))"

subsection \<open>ProcessSyncCheckpoint\<close>

text \<open>
  The ways \<open>ProcessSyncCheckpoint\<close> ends, in source order; only \<open>Processed\<close> is \<open>true\<close>.
  The message is returned as well, since \<open>CheckSignature\<close> has rewritten it.
\<close>

datatype process_outcome =
  CheckSignatureFailed
  | UnserializeException
  | KeptPending
  | NotValid "validate_error + bool"
  | ProcessWriteFailed
  | Processed

definition ProcessSyncCheckpoint ::
    "env \<Rightarrow> node \<Rightarrow> CSyncCheckpoint \<Rightarrow> process_outcome \<times> CSyncCheckpoint \<times> node" where
  "ProcessSyncCheckpoint e s m =
     (case CheckSignature e m of
        Inl VerifySignatureFailed \<Rightarrow> (CheckSignatureFailed, m, s)
      | Inl UnserializeThrew \<Rightarrow> (UnserializeException, m, s)
      | Inr this \<Rightarrow>
          if (case BlockIndex e (hashCheckpoint this) of
                None \<Rightarrow> True
              | Some pindex \<Rightarrow> \<not> ChainActive_Contains e pindex)
          then (KeptPending, this,
                s\<lparr>hashPendingCheckpoint := hashCheckpoint this,
                  checkpointMessagePending := this\<rparr>)
          else
            let r = ValidateSyncCheckpoint e s (hashCheckpoint this) in
            if \<not> returned r then (NotValid r, this, s)
            else (case WriteSyncCheckpoint e s (hashCheckpoint this) of
                    (False, s1) \<Rightarrow> (ProcessWriteFailed, this, s1)
                  | (True, s1) \<Rightarrow>
                      (Processed, this,
                       s1\<lparr>checkpointMessage := this,
                           hashPendingCheckpoint := 0,
                           checkpointMessagePending := SetNull\<rparr>)))"

subsection \<open>AutoSelectSyncCheckpoint\<close>




subsection \<open>CheckSyncCheckpoint\<close>

text \<open>
  \<open>AssertionFailed\<close> is the \<open>assert\<close> on the block index, \<open>TipNull\<close> the dereference of a
  null tip; the other three are the \<open>return error(...)\<close> statements.
\<close>

datatype check_error = AssertionFailed | TipNull | PprevNull | SameHeight | LowerHeight

definition CheckSyncCheckpoint :: "env \<Rightarrow> node \<Rightarrow> uint256 \<Rightarrow> int \<Rightarrow> check_error + bool" where
  "CheckSyncCheckpoint e s hashBlock nHeight' =
     (if nHeight' = 0 then Inr True
      else if hashSyncCheckpoint s = 0 then Inr True
      else (case BlockIndex e (hashSyncCheckpoint s) of
              None \<Rightarrow> Inl AssertionFailed
            | Some pindexSync \<Rightarrow>
                (case (if nHeight' > nHeight pindexSync
                       then (case ChainActive_Tip e of
                               None \<Rightarrow> Some (Inl TipNull)
                             | Some tip \<Rightarrow>
                                 (case trace_back tip (nHeight pindexSync) of
                                    None \<Rightarrow> Some (Inl PprevNull)
                                  | Some pindex \<Rightarrow>
                                      if nHeight pindex < nHeight pindexSync
                                         \<or> GetBlockHash pindex \<noteq> hashSyncCheckpoint s
                                      then Some (Inr False)
                                      else None))
                       else None) of
                   Some r \<Rightarrow> r
                 | None \<Rightarrow>
                     if nHeight' = nHeight pindexSync \<and> hashBlock \<noteq> hashSyncCheckpoint s
                     then Inl SameHeight
                     else if nHeight' < nHeight pindexSync \<and> BlockIndex e hashBlock = None
                     then Inl LowerHeight
                     else Inr True)))"

subsection \<open>ResetSyncCheckpoint, CheckCheckpointPubKey, SetCheckpointPrivKey\<close>

definition ResetSyncCheckpoint :: "env \<Rightarrow> node \<Rightarrow> bool \<times> node" where
  "ResetSyncCheckpoint e s = WriteSyncCheckpoint e s (hashGenesisBlock e)"

datatype pubkey_error = ResetFailed | WriteKeyFailed

definition CheckCheckpointPubKey :: "env \<Rightarrow> node \<Rightarrow> (pubkey_error + bool) \<times> node" where
  "CheckCheckpointPubKey e s =
     (if (case txdb_CheckpointPubKey s of
            None \<Rightarrow> True
          | Some strPubKey \<Rightarrow> strPubKey \<noteq> checkpointPubKey e)
      then (case ResetSyncCheckpoint e s of
              (False, s1) \<Rightarrow> (Inl ResetFailed, s1)
            | (True, s1) \<Rightarrow>
                if \<not> txdb_WriteCheckpointPubKey_ok e then (Inl WriteKeyFailed, s1)
                else (Inr True,
                      s1\<lparr>txdb_CheckpointPubKey := Some (checkpointPubKey e),
                          nFlushes := nFlushes s1 + 1\<rparr>))
      else (Inr True, s))"

definition SetCheckpointPrivKey :: "env \<Rightarrow> node \<Rightarrow> string \<Rightarrow> bool \<times> node" where
  "SetCheckpointPrivKey e s strPrivKey =
     (if \<not> DecodeSecret_IsValid e strPrivKey then (False, s)
      else (True, s\<lparr>strMasterPrivKey := strPrivKey\<rparr>))"

subsection \<open>SendSyncCheckpoint\<close>

datatype send_error =
  MasterKeyUnavailable
  | MasterKeyInvalid
  | UnableToSign
  | FailedToProcess process_outcome

definition SendSyncCheckpoint :: "env \<Rightarrow> node \<Rightarrow> uint256 \<Rightarrow> (send_error + bool) \<times> node" where
  "SendSyncCheckpoint e s hashCheckpoint' =
     (case g_connman s of
        None \<Rightarrow> (Inr True, s)
      | Some nodes \<Rightarrow>
          if length nodes = 0 then (Inr True, s)
          else if hashCheckpoint' = 0 then (Inr True, s)
          else
            let checkpoint = SetNull\<lparr>hashCheckpoint := hashCheckpoint'\<rparr>;
                checkpoint = checkpoint\<lparr>vchMsg := Serialize e (nVersion checkpoint)
                                                       (hashCheckpoint checkpoint)\<rparr>
            in
            if strMasterPrivKey s = [] then (Inl MasterKeyUnavailable, s)
            else if \<not> DecodeSecret_IsValid e (strMasterPrivKey s) then (Inl MasterKeyInvalid, s)
            else (case Sign e (strMasterPrivKey s) (vchMsg checkpoint) of
                    None \<Rightarrow> (Inl UnableToSign, s)
                  | Some sig \<Rightarrow>
                      (case ProcessSyncCheckpoint e s (checkpoint\<lparr>vchSig := sig\<rparr>) of
                         (Processed, checkpoint', s1) \<Rightarrow>
                           (Inr True,
                            s1\<lparr>g_connman :=
                                  map_option (map (RelayTo True checkpoint')) (g_connman s1)\<rparr>)
                       | (r, checkpoint', s1) \<Rightarrow> (Inl (FailedToProcess r), s1))))"

subsection \<open>Sequences of events\<close>

text \<open>
  The two events that reach the acceptance logic: a checkpoint message arrives
  (\<open>ProcessSyncCheckpoint\<close>), or a block has been connected
  (\<open>AcceptPendingSyncCheckpoint\<close>). Each event comes with the surroundings at that moment.
\<close>

datatype event = CheckpointMessage CSyncCheckpoint | BlockConnected

fun step :: "env \<Rightarrow> node \<Rightarrow> event \<Rightarrow> node" where
  "step e s (CheckpointMessage m) = snd (snd (ProcessSyncCheckpoint e s m))"
| "step e s BlockConnected = snd (AcceptPendingSyncCheckpoint e s)"

fun run :: "node \<Rightarrow> (env \<times> event) list \<Rightarrow> node" where
  "run s [] = s"
| "run s ((e, ev) # evs) = run (step e s ev) evs"

subsection \<open>A block index with a fork, for worked examples\<close>

text \<open>
  Two branches from the same genesis block: \<open>G - A1 - A2 - A3\<close> and \<open>G - B1 - B2 - B3\<close>.
\<close>

definition blkG :: CBlockIndex where "blkG = CBlockIndex 10 0 None"
definition blkA1 :: CBlockIndex where "blkA1 = CBlockIndex 11 1 (Some blkG)"
definition blkA2 :: CBlockIndex where "blkA2 = CBlockIndex 12 2 (Some blkA1)"
definition blkA3 :: CBlockIndex where "blkA3 = CBlockIndex 13 3 (Some blkA2)"
definition blkB1 :: CBlockIndex where "blkB1 = CBlockIndex 21 1 (Some blkG)"
definition blkB2 :: CBlockIndex where "blkB2 = CBlockIndex 22 2 (Some blkB1)"
definition blkB3 :: CBlockIndex where "blkB3 = CBlockIndex 23 3 (Some blkB2)"

lemmas blk_defs = blkG_def blkA1_def blkA2_def blkA3_def blkB1_def blkB2_def blkB3_def

text \<open>
  The node follows branch A; it has seen \<open>B1\<close> and \<open>B2\<close> as side-chain blocks, not \<open>B3\<close>.
  The toy cryptography: a signature is valid when it repeats the payload, and a payload
  is the two bytes version, hash.
\<close>

definition envA :: env where
  "envA = \<lparr>BlockIndex = [10 \<mapsto> blkG, 11 \<mapsto> blkA1, 12 \<mapsto> blkA2, 13 \<mapsto> blkA3,
                        21 \<mapsto> blkB1, 22 \<mapsto> blkB2],
           ChainActive_Contains = (\<lambda>b. b \<in> set (ancestry blkA3)),
           ChainActive_Tip = Some blkA3,
           hashGenesisBlock = 10,
           checkpointPubKey = ''04a1'',
           checkpointdepth = 1,
           Verify = (\<lambda>pk msg sig. pk = ''04a1'' \<and> sig = msg),
           Unserialize = (\<lambda>msg. case msg of [v, h] \<Rightarrow> Some (uint v, ucast h) | _ \<Rightarrow> None),
           Serialize = (\<lambda>v h. [word_of_int v, ucast h]),
           DecodeSecret_IsValid = (\<lambda>k. k = ''secret''),
           Sign = (\<lambda>k msg. if k = ''secret'' then Some msg else None),
           txdb_WriteSyncCheckpoint_ok = True,
           txdb_WriteCheckpointPubKey_ok = True\<rparr>"

text \<open>Later: \<open>B3\<close> has arrived and the node has reorganized to branch B.\<close>

definition envB :: env where
  "envB = envA\<lparr>BlockIndex := (BlockIndex envA)(23 \<mapsto> blkB3),
               ChainActive_Contains := (\<lambda>b. b \<in> set (ancestry blkB3)),
               ChainActive_Tip := Some blkB3\<rparr>"

text \<open>\<open>B3\<close> has arrived but the node still follows branch A.\<close>

definition envA_B3 :: env where
  "envA_B3 = envA\<lparr>BlockIndex := (BlockIndex envA)(23 \<mapsto> blkB3)\<rparr>"

text \<open>The database refuses the checkpoint write.\<close>

definition envA_readonly :: env where
  "envA_readonly = envA\<lparr>txdb_WriteSyncCheckpoint_ok := False\<rparr>"

definition msg_for :: "8 word \<Rightarrow> CSyncCheckpoint" where
  "msg_for h = \<lparr>nVersion = 1, hashCheckpoint = ucast h, vchMsg = [1, h], vchSig = [1, h]\<rparr>"

text \<open>A node whose active checkpoint is the given hash, with nothing pending.\<close>

definition node_at :: "uint256 \<Rightarrow> node" where
  "node_at h = \<lparr>hashSyncCheckpoint = h,
                hashPendingCheckpoint = 0,
                checkpointMessage = SetNull,
                checkpointMessagePending = SetNull,
                strMasterPrivKey = [],
                txdb_SyncCheckpoint = Some h,
                txdb_CheckpointPubKey = Some ''04a1'',
                nFlushes = 0,
                g_connman = None\<rparr>"

text \<open>A master node with one connected peer that supports checkpoint messages.\<close>

definition peer0 :: CNode where
  "peer0 = \<lparr>hashCheckpointKnown = 0, supportACPMessages = True, vSendMsg = []\<rparr>"

definition master_at :: "uint256 \<Rightarrow> node" where
  "master_at h = (node_at h)\<lparr>strMasterPrivKey := ''secret'', g_connman := Some [peer0]\<rparr>"

text \<open>A chain without forks up to any height; the entry at height \<open>n\<close> has hash \<open>1000 + n\<close>.\<close>

fun chain_to :: "nat \<Rightarrow> CBlockIndex" where
  "chain_to 0 = CBlockIndex 1000 0 None"
| "chain_to (Suc n) = CBlockIndex (1000 + of_nat (Suc n)) (int (Suc n)) (Some (chain_to n))"

section \<open>Properties\<close>

subsection \<open>The walk finds the ancestor at the target height\<close>

lemma trace_back_ancestor_at:
  "linked b \<Longrightarrow> h \<le> nHeight b \<Longrightarrow> trace_back b h = ancestor_at b h"
proof (induction b h rule: trace_back.induct)
  case (1 hb n pp h)
  show ?case
  proof (cases "n > h")
    case True
    show ?thesis
    proof (cases pp)
      case None
      with True show ?thesis by (simp add: ancestor_at_def)
    next
      case (Some p)
      with "1.prems" have lp: "linked p" and hp: "nHeight p = n - 1" by simp_all
      from hp True have "h \<le> nHeight p" by simp
      with "1.IH"[OF True Some lp] have "trace_back p h = ancestor_at p h" by simp
      with True Some show ?thesis by (simp add: ancestor_at_def)
    qed
  next
    case False
    with "1.prems" have "n = h" by simp
    then show ?thesis by (simp add: ancestor_at_def)
  qed
qed

lemma ancestry_not_Nil: "ancestry b \<noteq> []"
  by (cases b) simp

lemma root_height_le: "linked b \<Longrightarrow> nHeight (last (ancestry b)) \<le> nHeight b"
proof (induction b rule: ancestry.induct)
  case (1 hb n pp)
  show ?case
  proof (cases pp)
    case None
    then show ?thesis by simp
  next
    case (Some p)
    with "1.prems" have lp: "linked p" and hp: "nHeight p = n - 1" by simp_all
    from "1.IH"[OF Some lp] hp Some show ?thesis by (simp add: ancestry_not_Nil)
  qed
qed

text \<open>
  Below the start, no ancestor has the target height exactly when the chain of parents
  ends (in a null \<open>pprev\<close>) above it.
\<close>

lemma ancestor_at_None:
  "linked b \<Longrightarrow> h \<le> nHeight b \<Longrightarrow>
   (ancestor_at b h = None) = (h < nHeight (last (ancestry b)))"
proof (induction b rule: ancestry.induct)
  case (1 hb n pp)
  show ?case
  proof (cases pp)
    case None
    with "1.prems" show ?thesis by (auto simp: ancestor_at_def)
  next
    case (Some p)
    with "1.prems" have lp: "linked p" and hp: "nHeight p = n - 1" by simp_all
    show ?thesis
    proof (cases "n = h")
      case True
      have "nHeight (last (ancestry p)) \<le> nHeight p" by (rule root_height_le[OF lp])
      with True Some hp show ?thesis by (simp add: ancestor_at_def ancestry_not_Nil)
    next
      case False
      with "1.prems" hp have "h \<le> nHeight p" by simp
      from "1.IH"[OF Some lp this] False Some show ?thesis
        by (simp add: ancestor_at_def ancestry_not_Nil)
    qed
  qed
qed

text \<open>
  C1. When the active checkpoint and the candidate are both in the block index (with
  heights going down by one along parent links), \<open>ValidateSyncCheckpoint\<close> does this.
  Candidate not higher than the active checkpoint: it looks up the active checkpoint's
  ancestor at the candidate's height; the result is a plain \<open>false\<close> (ignore) when that
  ancestor's hash is the candidate, the "conflicting" error when it is another hash, and
  the "pprev1 null" error when the parents end before that height. Candidate higher: it
  looks up the candidate's ancestor at the active checkpoint's height; the result is
  \<open>true\<close> (apply) when that ancestor's hash is the active checkpoint, the "not a
  descendant" error when it is another hash, and the "pprev2 null" error when the parents
  end before that height.
\<close>

theorem ValidateSyncCheckpoint_cases:
  assumes "BlockIndex e (hashSyncCheckpoint s) = Some a"
    and "BlockIndex e c = Some r"
    and "linked a" and "linked r"
  shows "ValidateSyncCheckpoint e s c =
     (if nHeight r \<le> nHeight a
      then (case ancestor_at a (nHeight r) of
              None \<Rightarrow> Inl Pprev1Null
            | Some x \<Rightarrow> if GetBlockHash x = c then Inr False else Inl Conflicting)
      else (case ancestor_at r (nHeight a) of
              None \<Rightarrow> Inl Pprev2Null
            | Some x \<Rightarrow> if GetBlockHash x = hashSyncCheckpoint s then Inr True
                        else Inl NotDescendant))"
proof (cases "nHeight r \<le> nHeight a")
  case True
  with assms show ?thesis
    by (simp add: ValidateSyncCheckpoint_def trace_back_ancestor_at split: option.split)
next
  case False
  then have "nHeight a \<le> nHeight r" by simp
  with False assms show ?thesis
    by (simp add: ValidateSyncCheckpoint_def trace_back_ancestor_at split: option.split)
qed

text \<open>
  All six outcomes. Active \<open>A1\<close>, candidate \<open>A3\<close>: applied, its ancestor at height 1 is
  \<open>A1\<close>. Active \<open>A3\<close>, candidate \<open>A1\<close>: ignored. Active \<open>A2\<close>, candidate \<open>B2\<close>:
  conflicting. Active \<open>A2\<close>, candidate \<open>B3\<close>: not a descendant. An entry at height 5 with
  a null \<open>pprev\<close>, as active checkpoint against \<open>A1\<close> and as candidate against \<open>A1\<close>:
  the walk runs out of parents.
\<close>

theorem ValidateSyncCheckpoint_cases_witness:
  "BlockIndex envA (hashSyncCheckpoint (node_at 11)) = Some blkA1
   \<and> BlockIndex envA 13 = Some blkA3
   \<and> linked blkA1 \<and> linked blkA3
   \<and> ancestor_at blkA3 (nHeight blkA1) = Some blkA1
   \<and> ValidateSyncCheckpoint envA (node_at 11) 13 = Inr True
   \<and> ValidateSyncCheckpoint envA (node_at 13) 11 = Inr False
   \<and> ValidateSyncCheckpoint envA (node_at 12) 22 = Inl Conflicting
   \<and> ValidateSyncCheckpoint envB (node_at 12) 23 = Inl NotDescendant
   \<and> ValidateSyncCheckpoint
         (envA\<lparr>BlockIndex := (BlockIndex envA)(31 \<mapsto> CBlockIndex 31 5 None)\<rparr>)
         (node_at 31) 11 = Inl Pprev1Null
   \<and> ValidateSyncCheckpoint
         (envA\<lparr>BlockIndex := (BlockIndex envA)(31 \<mapsto> CBlockIndex 31 5 None)\<rparr>)
         (node_at 11) 31 = Inl Pprev2Null"
  using ValidateSyncCheckpoint_cases [of envA "node_at 11" blkA1 13 blkA3]
    ValidateSyncCheckpoint_cases [of envA "node_at 13" blkA3 11 blkA1]
    ValidateSyncCheckpoint_cases [of envA "node_at 12" blkA2 22 blkB2]
    ValidateSyncCheckpoint_cases [of envB "node_at 12" blkA2 23 blkB3]
    ValidateSyncCheckpoint_cases
      [of "envA\<lparr>BlockIndex := (BlockIndex envA)(31 \<mapsto> CBlockIndex 31 5 None)\<rparr>"
        "node_at 31" "CBlockIndex 31 5 None" 11 blkA1]
    ValidateSyncCheckpoint_cases
      [of "envA\<lparr>BlockIndex := (BlockIndex envA)(31 \<mapsto> CBlockIndex 31 5 None)\<rparr>"
        "node_at 11" blkA1 31 "CBlockIndex 31 5 None"]
  by (simp add: envA_def envB_def node_at_def blk_defs ancestor_at_def)

subsection \<open>The consensus gate\<close>

text \<open>
  C2, as the code has it. \<open>CheckSyncCheckpoint\<close> returns \<open>true\<close> when the height is 0 or
  the active checkpoint is the null hash. Otherwise, with the active checkpoint in the
  block index: at the checkpoint's height it returns \<open>true\<close> exactly when the block hash
  is the checkpoint's hash (else the "same height" error); below the checkpoint's height
  it returns \<open>true\<close> exactly when the block hash is already in the block index (else the
  "lower height" error). Below the checkpoint's height no ancestry is compared.
\<close>

theorem CheckSyncCheckpoint_at_or_below:
  "(nHeight' = 0 \<or> hashSyncCheckpoint s = 0 \<longrightarrow>
      CheckSyncCheckpoint e s hashBlock nHeight' = Inr True)
   \<and> (nHeight' \<noteq> 0 \<and> hashSyncCheckpoint s \<noteq> 0
        \<and> BlockIndex e (hashSyncCheckpoint s) = Some pindexSync
        \<and> nHeight' \<le> nHeight pindexSync \<longrightarrow>
      CheckSyncCheckpoint e s hashBlock nHeight' =
        (if nHeight' = nHeight pindexSync
         then (if hashBlock = hashSyncCheckpoint s then Inr True else Inl SameHeight)
         else (if BlockIndex e hashBlock = None then Inl LowerHeight else Inr True)))"
  by (auto simp: CheckSyncCheckpoint_def)

text \<open>
  At checkpoint \<open>A2\<close>: \<open>B2\<close> at height 2 is refused and \<open>A2\<close> itself passes; at height 1
  the unknown \<open>B3\<close> is refused and the known \<open>A1\<close> passes; height 0 and a null checkpoint
  pass.
\<close>

theorem CheckSyncCheckpoint_at_or_below_witness:
  "CheckSyncCheckpoint envA (node_at 12) 22 2 = Inl SameHeight
   \<and> CheckSyncCheckpoint envA (node_at 12) 12 2 = Inr True
   \<and> CheckSyncCheckpoint envA (node_at 12) 23 1 = Inl LowerHeight
   \<and> CheckSyncCheckpoint envA (node_at 12) 11 1 = Inr True
   \<and> CheckSyncCheckpoint envA (node_at 12) 23 0 = Inr True
   \<and> CheckSyncCheckpoint envA (node_at 0) 23 1 = Inr True"
  using CheckSyncCheckpoint_at_or_below [where e = envA and s = "node_at 12" and hashBlock = 22
      and nHeight' = 2 and pindexSync = blkA2]
    CheckSyncCheckpoint_at_or_below [where e = envA and s = "node_at 12" and hashBlock = 12
      and nHeight' = 2 and pindexSync = blkA2]
    CheckSyncCheckpoint_at_or_below [where e = envA and s = "node_at 12" and hashBlock = 23
      and nHeight' = 1 and pindexSync = blkA2]
    CheckSyncCheckpoint_at_or_below [where e = envA and s = "node_at 12" and hashBlock = 11
      and nHeight' = 1 and pindexSync = blkA2]
    CheckSyncCheckpoint_at_or_below [where e = envA and s = "node_at 12" and hashBlock = 23
      and nHeight' = 0 and pindexSync = blkA2]
    CheckSyncCheckpoint_at_or_below [where e = envA and s = "node_at 0" and hashBlock = 23
      and nHeight' = 1 and pindexSync = blkA2]
  by (simp add: envA_def node_at_def blk_defs)

text \<open>
  C2 as stated fails: with the checkpoint at \<open>A2\<close> (height 2), the side-chain block \<open>B1\<close>
  at height 1 passes the gate, although it is not the checkpoint, the checkpoint is not
  among its ancestors, and it is not among the checkpoint's ancestors.
\<close>

theorem CheckSyncCheckpoint_known_fork_block_passes:
  "CheckSyncCheckpoint envA (node_at 12) 21 1 = Inr True
   \<and> BlockIndex envA (hashSyncCheckpoint (node_at 12)) = Some blkA2
   \<and> BlockIndex envA 21 = Some blkB1
   \<and> nHeight blkB1 = 1 \<and> nHeight blkB1 \<le> nHeight blkA2
   \<and> (21 :: uint256) \<noteq> hashSyncCheckpoint (node_at 12)
   \<and> blkA2 \<notin> set (ancestry blkB1)
   \<and> blkB1 \<notin> set (ancestry blkA2)"
  by (simp add: CheckSyncCheckpoint_def envA_def node_at_def blk_defs)

subsection \<open>What a call does to the active checkpoint\<close>

lemma returned_iff: "returned r = (r = Inr True)"
  by (cases r) (auto simp: returned_def)

lemma ValidateSyncCheckpoint_True_higher:
  "ValidateSyncCheckpoint e s c = Inr True \<Longrightarrow>
   \<exists>a r. BlockIndex e (hashSyncCheckpoint s) = Some a \<and> BlockIndex e c = Some r
         \<and> nHeight a < nHeight r"
  by (auto simp: ValidateSyncCheckpoint_def split: option.splits if_splits)

lemma relay_accepted_hashSyncCheckpoint [simp]:
  "hashSyncCheckpoint (relay_accepted s) = hashSyncCheckpoint s"
  by (simp add: relay_accepted_def split: option.split)

lemma ProcessSyncCheckpoint_active:
  assumes "ProcessSyncCheckpoint e s m = (out, m', s')"
  shows "(out \<noteq> Processed \<and> hashSyncCheckpoint s' = hashSyncCheckpoint s)
         \<or> (out = Processed
             \<and> (\<exists>a b. BlockIndex e (hashSyncCheckpoint s) = Some a
                      \<and> BlockIndex e (hashSyncCheckpoint s') = Some b
                      \<and> nHeight a < nHeight b))"
proof (cases "CheckSignature e m")
  case (Inl err)
  with assms show ?thesis
    by (cases err) (auto simp: ProcessSyncCheckpoint_def)
next
  case (Inr this)
  show ?thesis
  proof (cases "ValidateSyncCheckpoint e s (hashCheckpoint this) = Inr True")
    case True
    from ValidateSyncCheckpoint_True_higher[OF True] obtain a r where
      "BlockIndex e (hashSyncCheckpoint s) = Some a" "BlockIndex e (hashCheckpoint this) = Some r"
      "nHeight a < nHeight r" by blast
    with assms Inr True show ?thesis
      by (auto simp: ProcessSyncCheckpoint_def returned_iff WriteSyncCheckpoint_def
          split: if_splits)
  next
    case False
    with assms Inr show ?thesis
      by (auto simp: ProcessSyncCheckpoint_def returned_iff split: if_splits option.splits)
  qed
qed

lemma AcceptPendingSyncCheckpoint_active:
  assumes "AcceptPendingSyncCheckpoint e s = (out, s')"
  shows "(out \<noteq> PendingAccepted \<and> hashSyncCheckpoint s' = hashSyncCheckpoint s)
         \<or> (out = PendingAccepted
             \<and> (\<exists>a b. BlockIndex e (hashSyncCheckpoint s) = Some a
                      \<and> BlockIndex e (hashSyncCheckpoint s') = Some b
                      \<and> nHeight a < nHeight b))"
proof (cases "ValidateSyncCheckpoint e s (hashPendingCheckpoint s) = Inr True")
  case True
  from ValidateSyncCheckpoint_True_higher[OF True] obtain a r where
    "BlockIndex e (hashSyncCheckpoint s) = Some a"
    "BlockIndex e (hashPendingCheckpoint s) = Some r"
    "nHeight a < nHeight r" by blast
  with assms True show ?thesis
    by (auto simp: AcceptPendingSyncCheckpoint_def returned_iff WriteSyncCheckpoint_def Let_def
        split: if_splits)
next
  case False
  with assms show ?thesis
    by (auto simp: AcceptPendingSyncCheckpoint_def returned_iff Let_def
        split: if_splits option.splits)
qed

lemma step_active:
  "hashSyncCheckpoint (step e s ev) = hashSyncCheckpoint s
   \<or> (\<exists>a b. BlockIndex e (hashSyncCheckpoint s) = Some a
           \<and> BlockIndex e (hashSyncCheckpoint (step e s ev)) = Some b
           \<and> nHeight a < nHeight b)"
proof (cases ev)
  case (CheckpointMessage m)
  obtain out m' s' where p: "ProcessSyncCheckpoint e s m = (out, m', s')"
    by (cases "ProcessSyncCheckpoint e s m") auto
  from ProcessSyncCheckpoint_active[OF p] CheckpointMessage p show ?thesis by auto
next
  case BlockConnected
  obtain out s' where p: "AcceptPendingSyncCheckpoint e s = (out, s')"
    by (cases "AcceptPendingSyncCheckpoint e s") auto
  from AcceptPendingSyncCheckpoint_active[OF p] BlockConnected p show ?thesis by auto
qed

text \<open>
  C3. Take any sequence of checkpoint messages and block connections, each met in its own
  surroundings, where every block index is part of one final index \<open>B\<close> (entries are added,
  never changed). If the active checkpoint starts at an entry of \<open>B\<close>, then after the whole
  sequence it is an entry of \<open>B\<close> whose height is not lower, and it is strictly higher
  whenever the active checkpoint has changed. (By the two lemmas above, a call changes the
  active checkpoint only when it accepts, and then to a strictly higher entry.)
\<close>

theorem active_checkpoint_height_monotone:
  assumes "\<forall>(e, ev) \<in> set evs. BlockIndex e \<subseteq>\<^sub>m B"
    and "B (hashSyncCheckpoint s) = Some a"
  shows "\<exists>b. B (hashSyncCheckpoint (run s evs)) = Some b \<and> nHeight a \<le> nHeight b
           \<and> (hashSyncCheckpoint (run s evs) \<noteq> hashSyncCheckpoint s \<longrightarrow> nHeight a < nHeight b)"
  using assms
proof (induction evs arbitrary: s a)
  case Nil
  then show ?case by simp
next
  case (Cons x evs)
  obtain e ev where x: "x = (e, ev)" by (cases x)
  from Cons.prems(1) x have le: "BlockIndex e \<subseteq>\<^sub>m B"
    and rest: "\<forall>(e, ev) \<in> set evs. BlockIndex e \<subseteq>\<^sub>m B" by auto
  from step_active[of e s ev]
  show ?case
  proof
    assume same: "hashSyncCheckpoint (step e s ev) = hashSyncCheckpoint s"
    with Cons.prems(2) have "B (hashSyncCheckpoint (step e s ev)) = Some a" by simp
    from Cons.IH[OF rest this] same x show ?thesis by simp
  next
    assume "\<exists>a' b. BlockIndex e (hashSyncCheckpoint s) = Some a'
           \<and> BlockIndex e (hashSyncCheckpoint (step e s ev)) = Some b
           \<and> nHeight a' < nHeight b"
    then obtain a' b where a': "BlockIndex e (hashSyncCheckpoint s) = Some a'"
      and b: "BlockIndex e (hashSyncCheckpoint (step e s ev)) = Some b"
      and lt: "nHeight a' < nHeight b" by blast
    from le a' have "B (hashSyncCheckpoint s) = Some a'"
      by (metis domI map_le_def)
    with Cons.prems(2) have eq: "a' = a" by simp
    from le b have Bb: "B (hashSyncCheckpoint (step e s ev)) = Some b"
      by (metis domI map_le_def)
    from Cons.IH[OF rest Bb] obtain c where
      c: "B (hashSyncCheckpoint (run (step e s ev) evs)) = Some c" and "nHeight b \<le> nHeight c"
      by blast
    with lt eq x show ?thesis by simp
  qed
qed

text \<open>
  From \<open>A1\<close>: the message for \<open>A2\<close> is accepted, a block connection changes nothing, a
  message for \<open>A1\<close> met while the node follows branch B is kept pending, the message for
  \<open>A3\<close> is accepted.
\<close>

theorem active_checkpoint_height_monotone_witness:
  "BlockIndex envB (hashSyncCheckpoint (node_at 11)) = Some blkA1
   \<and> BlockIndex envA \<subseteq>\<^sub>m BlockIndex envB
   \<and> hashSyncCheckpoint
        (run (node_at 11)
           [(envA, CheckpointMessage (msg_for 12)), (envA, BlockConnected),
            (envB, CheckpointMessage (msg_for 11)), (envA, CheckpointMessage (msg_for 13))]) = 13
   \<and> BlockIndex envB 13 = Some blkA3
   \<and> nHeight blkA1 < nHeight blkA3"
  using active_checkpoint_height_monotone [where B = "BlockIndex envB" and s = "node_at 11"
      and a = blkA1
      and evs = "[(envA, CheckpointMessage (msg_for 12)), (envA, BlockConnected),
            (envB, CheckpointMessage (msg_for 11)), (envA, CheckpointMessage (msg_for 13))]"]
  by (simp add: envA_def envB_def node_at_def blk_defs msg_for_def map_le_def
      ProcessSyncCheckpoint_def CheckSignature_def ValidateSyncCheckpoint_def returned_def
      WriteSyncCheckpoint_def AcceptPendingSyncCheckpoint_def)

subsection \<open>Deferral and promotion\<close>

text \<open>
  C4, as the code has it. A message whose signature verifies and whose target is not in
  the block index, or is in it but not on the active chain, is kept pending: the pending
  hash and message are set to it, the active checkpoint stays, and the call returns
  \<open>false\<close> on the pending path. Once the target (not the null hash) is in the block index
  and on the active chain, the next \<open>AcceptPendingSyncCheckpoint\<close> validates it against
  the active checkpoint again. If that validation returns \<open>true\<close> and the database write
  succeeds, the target becomes the active checkpoint, the pending message becomes
  \<open>checkpointMessage\<close> and the pending slot is cleared; if the write fails nothing
  changes; if the validation does not return \<open>true\<close>, the pending slot is cleared and the
  active checkpoint stays.
\<close>

theorem deferred_then_promoted:
  assumes "CheckSignature e m = Inr m'"
    and "BlockIndex e (hashCheckpoint m') = None
         \<or> (\<exists>p. BlockIndex e (hashCheckpoint m') = Some p \<and> \<not> ChainActive_Contains e p)"
  shows "let h = hashCheckpoint m';
             s1 = s\<lparr>hashPendingCheckpoint := h, checkpointMessagePending := m'\<rparr>
         in ProcessSyncCheckpoint e s m = (KeptPending, m', s1)
            \<and> hashSyncCheckpoint s1 = hashSyncCheckpoint s
            \<and> (\<forall>e2 p. h \<noteq> 0 \<and> BlockIndex e2 h = Some p \<and> ChainActive_Contains e2 p \<longrightarrow>
                  (ValidateSyncCheckpoint e2 s h = Inr True \<and> txdb_WriteSyncCheckpoint_ok e2 \<longrightarrow>
                     AcceptPendingSyncCheckpoint e2 s1 =
                       (PendingAccepted,
                        relay_accepted
                          (s\<lparr>txdb_SyncCheckpoint := Some h,
                             nFlushes := nFlushes s + 1,
                             hashSyncCheckpoint := h,
                             hashPendingCheckpoint := 0,
                             checkpointMessage := m',
                             checkpointMessagePending := SetNull\<rparr>)))
                  \<and> (ValidateSyncCheckpoint e2 s h = Inr True \<and> \<not> txdb_WriteSyncCheckpoint_ok e2 \<longrightarrow>
                     AcceptPendingSyncCheckpoint e2 s1 = (PendingWriteFailed, s1))
                  \<and> (ValidateSyncCheckpoint e2 s h \<noteq> Inr True \<longrightarrow>
                     AcceptPendingSyncCheckpoint e2 s1 =
                       (PendingNotValid (ValidateSyncCheckpoint e2 s h),
                        s\<lparr>hashPendingCheckpoint := 0, checkpointMessagePending := SetNull\<rparr>)))"
proof -
  define h where "h = hashCheckpoint m'"
  define s1 where "s1 = s\<lparr>hashPendingCheckpoint := h, checkpointMessagePending := m'\<rparr>"
  have v: "ValidateSyncCheckpoint e2 s1 c = ValidateSyncCheckpoint e2 s c" for e2 c
    by (simp add: ValidateSyncCheckpoint_def s1_def cong: option.case_cong if_cong)
  from assms have p: "ProcessSyncCheckpoint e s m = (KeptPending, m', s1)"
    by (auto simp: ProcessSyncCheckpoint_def s1_def h_def)
  have a1: "AcceptPendingSyncCheckpoint e2 s1 =
                       (PendingAccepted,
                        relay_accepted
                          (s\<lparr>txdb_SyncCheckpoint := Some h,
                             nFlushes := nFlushes s + 1,
                             hashSyncCheckpoint := h,
                             hashPendingCheckpoint := 0,
                             checkpointMessage := m',
                             checkpointMessagePending := SetNull\<rparr>))"
    if "h \<noteq> 0" "BlockIndex e2 h = Some p" "ChainActive_Contains e2 p"
      "ValidateSyncCheckpoint e2 s h = Inr True" "txdb_WriteSyncCheckpoint_ok e2" for e2 p
    using that v[of e2 h]
    by (simp add: AcceptPendingSyncCheckpoint_def returned_def WriteSyncCheckpoint_def s1_def)
  have a2: "AcceptPendingSyncCheckpoint e2 s1 = (PendingWriteFailed, s1)"
    if "h \<noteq> 0" "BlockIndex e2 h = Some p" "ChainActive_Contains e2 p"
      "ValidateSyncCheckpoint e2 s h = Inr True" "\<not> txdb_WriteSyncCheckpoint_ok e2" for e2 p
    using that v[of e2 h]
    by (simp add: AcceptPendingSyncCheckpoint_def returned_def WriteSyncCheckpoint_def s1_def)
  have a3: "AcceptPendingSyncCheckpoint e2 s1 =
                       (PendingNotValid (ValidateSyncCheckpoint e2 s h),
                        s\<lparr>hashPendingCheckpoint := 0, checkpointMessagePending := SetNull\<rparr>)"
    if "h \<noteq> 0" "BlockIndex e2 h = Some p" "ValidateSyncCheckpoint e2 s h \<noteq> Inr True" for e2 p
  proof -
    from that(3) have "\<not> returned (ValidateSyncCheckpoint e2 s h)"
      by (cases "ValidateSyncCheckpoint e2 s h") (auto simp: returned_def)
    with that v[of e2 h] show ?thesis
      by (simp add: AcceptPendingSyncCheckpoint_def s1_def)
  qed
  have "hashSyncCheckpoint s1 = hashSyncCheckpoint s" by (simp add: s1_def)
  with p a1 a2 a3 show ?thesis
    unfolding Let_def h_def [symmetric] s1_def [symmetric] by blast
qed

text \<open>
  Active checkpoint at the genesis block, message for the unknown \<open>B3\<close>: kept pending;
  after \<open>B3\<close> has arrived on the active chain it is promoted.
\<close>

theorem deferred_then_promoted_witness:
  "CheckSignature envA (msg_for 23) = Inr (msg_for 23)
   \<and> BlockIndex envA (hashCheckpoint (msg_for 23)) = None
   \<and> ProcessSyncCheckpoint envA (node_at 10) (msg_for 23) =
       (KeptPending, msg_for 23,
        (node_at 10)\<lparr>hashPendingCheckpoint := 23, checkpointMessagePending := msg_for 23\<rparr>)
   \<and> BlockIndex envB 23 = Some blkB3 \<and> ChainActive_Contains envB blkB3
   \<and> ValidateSyncCheckpoint envB (node_at 10) 23 = Inr True
   \<and> AcceptPendingSyncCheckpoint envB
        ((node_at 10)\<lparr>hashPendingCheckpoint := 23, checkpointMessagePending := msg_for 23\<rparr>) =
       (PendingAccepted,
        (node_at 10)\<lparr>txdb_SyncCheckpoint := Some 23, nFlushes := 1, hashSyncCheckpoint := 23,
                      checkpointMessage := msg_for 23\<rparr>)"
  using deferred_then_promoted [where e = envA and s = "node_at 10" and m = "msg_for 23"
      and m' = "msg_for 23"]
  by (simp add: envA_def envB_def node_at_def blk_defs msg_for_def CheckSignature_def
      ValidateSyncCheckpoint_def relay_accepted_def Let_def)

text \<open>
  C4 as stated fails: with the active checkpoint at \<open>A2\<close>, the verified message for the
  unknown \<open>B3\<close> is kept pending; when \<open>B3\<close> is in the block index and on the active chain,
  the promotion call does not accept it (it is not a descendant of \<open>A2\<close>), clears the
  pending slot and leaves the active checkpoint at \<open>A2\<close>.
\<close>

theorem deferred_then_rejected_on_promotion:
  "CheckSignature envA (msg_for 23) = Inr (msg_for 23)
   \<and> BlockIndex envA (hashCheckpoint (msg_for 23)) = None
   \<and> ProcessSyncCheckpoint envA (node_at 12) (msg_for 23) =
       (KeptPending, msg_for 23,
        (node_at 12)\<lparr>hashPendingCheckpoint := 23, checkpointMessagePending := msg_for 23\<rparr>)
   \<and> BlockIndex envB 23 = Some blkB3 \<and> ChainActive_Contains envB blkB3
   \<and> AcceptPendingSyncCheckpoint envB
        ((node_at 12)\<lparr>hashPendingCheckpoint := 23, checkpointMessagePending := msg_for 23\<rparr>) =
       (PendingNotValid (Inl NotDescendant), node_at 12)
   \<and> hashSyncCheckpoint (node_at 12) = 12"
  by (simp add: envA_def envB_def node_at_def blk_defs msg_for_def CheckSignature_def
      ProcessSyncCheckpoint_def AcceptPendingSyncCheckpoint_def returned_def
      ValidateSyncCheckpoint_def)

text \<open>
  C5, as the code has it. With no pending hash, or a pending hash that is not in the block
  index, \<open>AcceptPendingSyncCheckpoint\<close> changes nothing. With the pending block in the
  index, validation runs first, whether or not the block is on the active chain: when it
  does not return \<open>true\<close> (conflict, not a descendant, older, or a failure of the index),
  the pending slot is cleared, nothing else changes, and every later call finds nothing
  pending. When validation returns \<open>true\<close>: off the active chain nothing changes and the
  checkpoint stays pending; on the active chain a failed write changes nothing, and a
  successful one accepts the checkpoint and clears the pending slot.
\<close>

theorem AcceptPendingSyncCheckpoint_cases:
  "(hashPendingCheckpoint s = 0 \<or> BlockIndex e (hashPendingCheckpoint s) = None \<longrightarrow>
      AcceptPendingSyncCheckpoint e s = (NoPendingCheckpoint, s))
   \<and> (hashPendingCheckpoint s \<noteq> 0 \<and> BlockIndex e (hashPendingCheckpoint s) = Some p \<longrightarrow>
       (let v = ValidateSyncCheckpoint e s (hashPendingCheckpoint s);
            cleared = s\<lparr>hashPendingCheckpoint := 0, checkpointMessagePending := SetNull\<rparr>
        in if v \<noteq> Inr True
           then AcceptPendingSyncCheckpoint e s = (PendingNotValid v, cleared)
                \<and> (\<forall>e'. AcceptPendingSyncCheckpoint e' cleared = (NoPendingCheckpoint, cleared))
           else if \<not> ChainActive_Contains e p
           then AcceptPendingSyncCheckpoint e s = (PendingNotInActiveChain, s)
           else if \<not> txdb_WriteSyncCheckpoint_ok e
           then AcceptPendingSyncCheckpoint e s = (PendingWriteFailed, s)
           else AcceptPendingSyncCheckpoint e s =
                  (PendingAccepted,
                   relay_accepted
                     (s\<lparr>txdb_SyncCheckpoint := Some (hashPendingCheckpoint s),
                        nFlushes := nFlushes s + 1,
                        hashSyncCheckpoint := hashPendingCheckpoint s,
                        hashPendingCheckpoint := 0,
                        checkpointMessage := checkpointMessagePending s,
                        checkpointMessagePending := SetNull\<rparr>))
                \<and> hashPendingCheckpoint (snd (AcceptPendingSyncCheckpoint e s)) = 0))"
proof -
  have r: "returned v = (v = Inr True)" for v :: "validate_error + bool"
    by (cases v) (auto simp: returned_def)
  have relay: "hashPendingCheckpoint (relay_accepted t) = hashPendingCheckpoint t" for t
    by (simp add: relay_accepted_def split: option.split)
  show ?thesis
    by (auto simp: AcceptPendingSyncCheckpoint_def Let_def r relay WriteSyncCheckpoint_def)
qed

text \<open>
  Pending \<open>B3\<close>: unknown, nothing happens; known, valid but off the active chain, nothing
  happens; known and not a descendant of the active checkpoint \<open>A2\<close>, dropped; known, valid
  and on the active chain, accepted.
\<close>

theorem AcceptPendingSyncCheckpoint_cases_witness:
  "AcceptPendingSyncCheckpoint envA
      ((node_at 10)\<lparr>hashPendingCheckpoint := 23, checkpointMessagePending := msg_for 23\<rparr>) =
     (NoPendingCheckpoint,
      (node_at 10)\<lparr>hashPendingCheckpoint := 23, checkpointMessagePending := msg_for 23\<rparr>)
   \<and> AcceptPendingSyncCheckpoint envA_B3
      ((node_at 10)\<lparr>hashPendingCheckpoint := 23, checkpointMessagePending := msg_for 23\<rparr>) =
     (PendingNotInActiveChain,
      (node_at 10)\<lparr>hashPendingCheckpoint := 23, checkpointMessagePending := msg_for 23\<rparr>)
   \<and> AcceptPendingSyncCheckpoint envB
      ((node_at 12)\<lparr>hashPendingCheckpoint := 23, checkpointMessagePending := msg_for 23\<rparr>) =
     (PendingNotValid (Inl NotDescendant), node_at 12)
   \<and> fst (AcceptPendingSyncCheckpoint envB
      ((node_at 10)\<lparr>hashPendingCheckpoint := 23, checkpointMessagePending := msg_for 23\<rparr>)) =
     PendingAccepted"
  using AcceptPendingSyncCheckpoint_cases [where e = envA and p = blkB3
      and s = "(node_at 10)\<lparr>hashPendingCheckpoint := 23, checkpointMessagePending := msg_for 23\<rparr>"]
    AcceptPendingSyncCheckpoint_cases [where e = envA_B3 and p = blkB3
      and s = "(node_at 10)\<lparr>hashPendingCheckpoint := 23, checkpointMessagePending := msg_for 23\<rparr>"]
    AcceptPendingSyncCheckpoint_cases [where e = envB and p = blkB3
      and s = "(node_at 12)\<lparr>hashPendingCheckpoint := 23, checkpointMessagePending := msg_for 23\<rparr>"]
    AcceptPendingSyncCheckpoint_cases [where e = envB and p = blkB3
      and s = "(node_at 10)\<lparr>hashPendingCheckpoint := 23, checkpointMessagePending := msg_for 23\<rparr>"]
  by (simp add: envA_def envB_def envA_B3_def node_at_def blk_defs msg_for_def
      ValidateSyncCheckpoint_def Let_def)

text \<open>
  C5 as stated fails: the pending block \<open>B3\<close> is in the block index but not on the active
  chain, and the call is not a no-op: validation against \<open>A2\<close> fails and the pending slot
  is cleared.
\<close>

theorem pending_cleared_while_off_active_chain:
  "hashPendingCheckpoint
      ((node_at 12)\<lparr>hashPendingCheckpoint := 23, checkpointMessagePending := msg_for 23\<rparr>) = 23
   \<and> BlockIndex envA_B3 23 = Some blkB3
   \<and> \<not> ChainActive_Contains envA_B3 blkB3
   \<and> AcceptPendingSyncCheckpoint envA_B3
        ((node_at 12)\<lparr>hashPendingCheckpoint := 23, checkpointMessagePending := msg_for 23\<rparr>) =
       (PendingNotValid (Inl NotDescendant), node_at 12)
   \<and> hashPendingCheckpoint (node_at 12) = 0"
  by (simp add: envA_def envA_B3_def node_at_def blk_defs msg_for_def
      AcceptPendingSyncCheckpoint_def returned_def ValidateSyncCheckpoint_def)

subsection \<open>Rejection and write failure\<close>

text \<open>
  C6, as the code has it. \<open>ProcessSyncCheckpoint\<close> validates a verified message only when
  its target is in the block index and on the active chain. When it is, and
  \<open>ValidateSyncCheckpoint\<close> ends in an error (in particular "conflicting" or "not a
  descendant"), the call returns \<open>false\<close> on the validation path and the node is exactly
  as before: active checkpoint, pending slot and last message included. A verified message
  whose target is a different block at the height of the active checkpoint is never
  accepted and the active checkpoint stays: when that block is on the active chain the
  message is rejected as conflicting and nothing changes at all; when it is not, the
  message does not reach validation and is kept pending, so the pending hash and the
  pending message are overwritten with it.
\<close>

theorem rejected_without_state_change:
  "(CheckSignature e m = Inr m' \<and> BlockIndex e (hashCheckpoint m') = Some p
      \<and> ChainActive_Contains e p
      \<and> ValidateSyncCheckpoint e s (hashCheckpoint m') = Inl err \<longrightarrow>
    ProcessSyncCheckpoint e s m = (NotValid (Inl err), m', s))
   \<and> (CheckSignature e m = Inr m' \<and> BlockIndex e (hashSyncCheckpoint s) = Some a
        \<and> BlockIndex e (hashCheckpoint m') = Some p
        \<and> nHeight p = nHeight a \<and> GetBlockHash a \<noteq> hashCheckpoint m' \<longrightarrow>
      ValidateSyncCheckpoint e s (hashCheckpoint m') = Inl Conflicting
      \<and> fst (ProcessSyncCheckpoint e s m) \<noteq> Processed
      \<and> hashSyncCheckpoint (snd (snd (ProcessSyncCheckpoint e s m))) = hashSyncCheckpoint s
      \<and> (ChainActive_Contains e p \<longrightarrow>
           ProcessSyncCheckpoint e s m = (NotValid (Inl Conflicting), m', s))
      \<and> (\<not> ChainActive_Contains e p \<longrightarrow>
           ProcessSyncCheckpoint e s m =
             (KeptPending, m',
              s\<lparr>hashPendingCheckpoint := hashCheckpoint m',
                checkpointMessagePending := m'\<rparr>)))"
proof -
  have same: "ValidateSyncCheckpoint e s (hashCheckpoint m') = Inl Conflicting"
    if "BlockIndex e (hashSyncCheckpoint s) = Some a" "BlockIndex e (hashCheckpoint m') = Some p"
      "nHeight p = nHeight a" "GetBlockHash a \<noteq> hashCheckpoint m'"
    using that by (cases a) (simp add: ValidateSyncCheckpoint_def)
  show ?thesis
    by (auto simp: ProcessSyncCheckpoint_def returned_def same)
qed

text \<open>
  The active checkpoint is \<open>A2\<close> and a verified message names \<open>B2\<close>, at the same height.
  On a node that follows branch B it is rejected as conflicting and nothing changes; on a
  node that follows branch A it is kept pending.
\<close>

theorem rejected_without_state_change_witness:
  "CheckSignature envB (msg_for 22) = Inr (msg_for 22)
   \<and> BlockIndex envB (hashSyncCheckpoint (node_at 12)) = Some blkA2
   \<and> BlockIndex envB (hashCheckpoint (msg_for 22)) = Some blkB2
   \<and> ChainActive_Contains envB blkB2
   \<and> nHeight blkB2 = nHeight blkA2
   \<and> ValidateSyncCheckpoint envB (node_at 12) 22 = Inl Conflicting
   \<and> ProcessSyncCheckpoint envB (node_at 12) (msg_for 22) =
       (NotValid (Inl Conflicting), msg_for 22, node_at 12)
   \<and> \<not> ChainActive_Contains envA blkB2
   \<and> ProcessSyncCheckpoint envA (node_at 12) (msg_for 22) =
       (KeptPending, msg_for 22,
        (node_at 12)\<lparr>hashPendingCheckpoint := 22, checkpointMessagePending := msg_for 22\<rparr>)"
  using rejected_without_state_change [where e = envB and s = "node_at 12" and m = "msg_for 22"
      and m' = "msg_for 22" and p = blkB2 and a = blkA2 and err = Conflicting]
    rejected_without_state_change [where e = envA and s = "node_at 12" and m = "msg_for 22"
      and m' = "msg_for 22" and p = blkB2 and a = blkA2 and err = Conflicting]
  by (simp add: envA_def envB_def node_at_def blk_defs msg_for_def CheckSignature_def)

text \<open>
  C6 as stated fails: the node follows branch A with the active checkpoint at \<open>A2\<close>, and a
  verified message names the side-chain block \<open>B2\<close> at the same height. Validation of
  \<open>B2\<close> against \<open>A2\<close> gives "conflicting", yet processing the message does not leave the
  state as it was: the pending hash goes from null to \<open>B2\<close> and the pending message
  becomes this message.
\<close>

theorem fork_checkpoint_overwrites_pending:
  "CheckSignature envA (msg_for 22) = Inr (msg_for 22)
   \<and> BlockIndex envA (hashSyncCheckpoint (node_at 12)) = Some blkA2
   \<and> BlockIndex envA 22 = Some blkB2
   \<and> nHeight blkB2 = nHeight blkA2
   \<and> ChainActive_Contains envA blkA2
   \<and> ValidateSyncCheckpoint envA (node_at 12) 22 = Inl Conflicting
   \<and> fst (ProcessSyncCheckpoint envA (node_at 12) (msg_for 22)) = KeptPending
   \<and> hashPendingCheckpoint (node_at 12) = 0
   \<and> hashPendingCheckpoint (snd (snd (ProcessSyncCheckpoint envA (node_at 12) (msg_for 22)))) = 22
   \<and> checkpointMessagePending (node_at 12) = SetNull
   \<and> checkpointMessagePending (snd (snd (ProcessSyncCheckpoint envA (node_at 12) (msg_for 22))))
       = msg_for 22
   \<and> hashSyncCheckpoint (snd (snd (ProcessSyncCheckpoint envA (node_at 12) (msg_for 22)))) = 12"
  by (simp add: envA_def node_at_def blk_defs msg_for_def CheckSignature_def
      ProcessSyncCheckpoint_def ValidateSyncCheckpoint_def)

text \<open>
  C7. When the database write fails, \<open>WriteSyncCheckpoint\<close> returns \<open>false\<close> and the node
  is unchanged; a \<open>ProcessSyncCheckpoint\<close> call that reaches the write (verified message,
  target on the active chain, validation \<open>true\<close>) then returns through its write-failure
  error with the node unchanged; and whenever the call ends in that error, the write had
  failed and the node is unchanged.
\<close>

theorem write_failure_leaves_state:
  "(\<not> txdb_WriteSyncCheckpoint_ok e \<longrightarrow> WriteSyncCheckpoint e s h = (False, s))
   \<and> (CheckSignature e m = Inr m' \<and> BlockIndex e (hashCheckpoint m') = Some p
        \<and> ChainActive_Contains e p
        \<and> ValidateSyncCheckpoint e s (hashCheckpoint m') = Inr True
        \<and> \<not> txdb_WriteSyncCheckpoint_ok e \<longrightarrow>
      ProcessSyncCheckpoint e s m = (ProcessWriteFailed, m', s))
   \<and> (fst (ProcessSyncCheckpoint e s m) = ProcessWriteFailed \<longrightarrow>
        \<not> txdb_WriteSyncCheckpoint_ok e \<and> snd (snd (ProcessSyncCheckpoint e s m)) = s)"
  by (auto simp: ProcessSyncCheckpoint_def WriteSyncCheckpoint_def returned_def Let_def
      split: sum.splits signature_error.splits option.splits if_splits)

text \<open>A valid message for \<open>A3\<close> at a node whose database refuses the write.\<close>

theorem write_failure_leaves_state_witness:
  "\<not> txdb_WriteSyncCheckpoint_ok envA_readonly
   \<and> WriteSyncCheckpoint envA_readonly (node_at 11) 13 = (False, node_at 11)
   \<and> CheckSignature envA_readonly (msg_for 13) = Inr (msg_for 13)
   \<and> ValidateSyncCheckpoint envA_readonly (node_at 11) 13 = Inr True
   \<and> ProcessSyncCheckpoint envA_readonly (node_at 11) (msg_for 13) =
       (ProcessWriteFailed, msg_for 13, node_at 11)"
  using write_failure_leaves_state [where e = envA_readonly and s = "node_at 11" and h = 13
      and m = "msg_for 13" and m' = "msg_for 13" and p = blkA3]
  by (simp add: envA_def envA_readonly_def node_at_def blk_defs msg_for_def CheckSignature_def
      ValidateSyncCheckpoint_def)

subsection \<open>Key rotation\<close>

text \<open>
  C8. When the persisted public key is absent or differs from the configured one (and the
  two database writes succeed), \<open>CheckCheckpointPubKey\<close> resets the active checkpoint to the
  genesis hash, in memory and in the database, and persists the configured key. When the
  persisted key is the configured one, the call changes nothing. So a call that has
  returned \<open>true\<close> leaves a node on which the next call changes nothing.
\<close>

theorem CheckCheckpointPubKey_rotation:
  "(txdb_CheckpointPubKey s \<noteq> Some (checkpointPubKey e)
      \<and> txdb_WriteSyncCheckpoint_ok e \<and> txdb_WriteCheckpointPubKey_ok e \<longrightarrow>
    CheckCheckpointPubKey e s =
      (Inr True,
       s\<lparr>txdb_SyncCheckpoint := Some (hashGenesisBlock e),
         nFlushes := nFlushes s + 2,
         hashSyncCheckpoint := hashGenesisBlock e,
         txdb_CheckpointPubKey := Some (checkpointPubKey e)\<rparr>))
   \<and> (txdb_CheckpointPubKey s = Some (checkpointPubKey e) \<longrightarrow>
        CheckCheckpointPubKey e s = (Inr True, s))
   \<and> (fst (CheckCheckpointPubKey e s) = Inr True \<longrightarrow>
        CheckCheckpointPubKey e (snd (CheckCheckpointPubKey e s)) =
          (Inr True, snd (CheckCheckpointPubKey e s)))"
  by (auto simp: CheckCheckpointPubKey_def ResetSyncCheckpoint_def WriteSyncCheckpoint_def
      split: option.splits)

text \<open>
  A different persisted key and an absent one both reset the checkpoint from \<open>A2\<close> to the
  genesis block; a second call, and a call with the right key in place, change nothing.
\<close>

theorem CheckCheckpointPubKey_rotation_witness:
  "CheckCheckpointPubKey envA ((node_at 12)\<lparr>txdb_CheckpointPubKey := Some ''04ff''\<rparr>) =
     (Inr True, (node_at 10)\<lparr>nFlushes := 2\<rparr>)
   \<and> CheckCheckpointPubKey envA ((node_at 12)\<lparr>txdb_CheckpointPubKey := None\<rparr>) =
     (Inr True, (node_at 10)\<lparr>nFlushes := 2\<rparr>)
   \<and> CheckCheckpointPubKey envA ((node_at 10)\<lparr>nFlushes := 2\<rparr>) =
     (Inr True, (node_at 10)\<lparr>nFlushes := 2\<rparr>)
   \<and> CheckCheckpointPubKey envA (node_at 12) = (Inr True, node_at 12)"
  using CheckCheckpointPubKey_rotation [where e = envA
      and s = "(node_at 12)\<lparr>txdb_CheckpointPubKey := Some ''04ff''\<rparr>"]
    CheckCheckpointPubKey_rotation [where e = envA
      and s = "(node_at 12)\<lparr>txdb_CheckpointPubKey := None\<rparr>"]
    CheckCheckpointPubKey_rotation [where e = envA and s = "(node_at 10)\<lparr>nFlushes := 2\<rparr>"]
    CheckCheckpointPubKey_rotation [where e = envA and s = "node_at 12"]
  by (simp add: envA_def node_at_def)

subsection \<open>Automatic selection\<close>




lemma chain_to_height [simp]: "nHeight (chain_to n) = int n"
  by (cases n) simp_all

lemma chain_to_hash [simp]: "GetBlockHash (chain_to n) = 1000 + of_nat n"
  by (cases n) simp_all

lemma chain_to_rooted [simp]: "rooted (chain_to n)"
  by (induction n) simp_all





subsection \<open>Broadcast\<close>

text \<open>
  For comparison, a broadcast that has something to do: the master signs, processes and
  relays the checkpoint \<open>A3\<close>.
\<close>

lemma SendSyncCheckpoint_example:
  "SendSyncCheckpoint envA (master_at 11) 13 =
     (Inr True,
      (master_at 11)\<lparr>txdb_SyncCheckpoint := Some 13, nFlushes := 1, hashSyncCheckpoint := 13,
                     checkpointMessage := msg_for 13,
                     g_connman := Some [peer0\<lparr>hashCheckpointKnown := 13,
                                                  vSendMsg := [msg_for 13]\<rparr>]\<rparr>)"
  by (simp add: SendSyncCheckpoint_def envA_def master_at_def node_at_def peer0_def SetNull_def
      ProcessSyncCheckpoint_def CheckSignature_def ValidateSyncCheckpoint_def returned_def
      WriteSyncCheckpoint_def RelayTo_def msg_for_def blk_defs)

text \<open>
  C10. When \<open>g_connman\<close> is null, or no peer is connected, or the hash is the null hash,
  \<open>SendSyncCheckpoint\<close> returns \<open>true\<close> and the node (checkpoint state, database, peers) is
  exactly as before, whatever the key material and the signing function are.
\<close>

theorem SendSyncCheckpoint_nothing_to_do:
  "g_connman s = None \<or> g_connman s = Some [] \<or> h = 0 \<Longrightarrow>
   SendSyncCheckpoint e s h = (Inr True, s)"
  by (auto simp: SendSyncCheckpoint_def split: option.splits)

theorem SendSyncCheckpoint_nothing_to_do_witness:
  "g_connman (node_at 11) = None
   \<and> SendSyncCheckpoint envA (node_at 11) 13 = (Inr True, node_at 11)
   \<and> SendSyncCheckpoint envA ((master_at 11)\<lparr>g_connman := Some []\<rparr>) 13 =
       (Inr True, (master_at 11)\<lparr>g_connman := Some []\<rparr>)
   \<and> g_connman (master_at 11) = Some [peer0]
   \<and> SendSyncCheckpoint envA (master_at 11) 0 = (Inr True, master_at 11)"
  using SendSyncCheckpoint_nothing_to_do [where e = envA and s = "node_at 11" and h = 13]
    SendSyncCheckpoint_nothing_to_do
      [where e = envA and s = "(master_at 11)\<lparr>g_connman := Some []\<rparr>" and h = 13]
    SendSyncCheckpoint_nothing_to_do [where e = envA and s = "master_at 11" and h = 0]
  by (simp add: node_at_def master_at_def)

end
